theory Spec2Isabelle
  imports Complex_Main
begin

section \<open>Python values used by the reader\<close>

text \<open>
  Python integers are unbounded and are modelled by \<open>int\<close>. Python floats are modelled
  by the rationals they denote (\<open>rat\<close>): every comparison and division below is the
  exact one, and the rounding of IEEE arithmetic is left out of the model.
  Everything that raises in the source is a value \<open>Inl e\<close> of the result.
\<close>

datatype backend_error = NegativeDimensions | BackendFault

datatype error =
    InvalidArgument
  | IndexError
  | ZeroDivisionError
  | PadValueError
  | ResizeError
  | Backend backend_error

definition ebind :: "error + 'a \<Rightarrow> ('a \<Rightarrow> error + 'b) \<Rightarrow> error + 'b" where
  "ebind m f = (case m of Inl e \<Rightarrow> Inl e | Inr v \<Rightarrow> f v)"

definition py_index :: "'a list \<Rightarrow> int \<Rightarrow> error + 'a" where
  \<comment> \<open>\<open>xs[i]\<close>: positions \<open>0 .. len-1\<close> from the front, \<open>-1 .. -len\<close> from the back,
      IndexError everywhere else\<close>
  "py_index xs i =
     (if 0 \<le> i \<and> i < int (length xs) then Inr (xs ! nat i)
      else if i < 0 \<and> - int (length xs) \<le> i then Inr (xs ! nat (int (length xs) + i))
      else Inl IndexError)"

definition py_round :: "rat \<Rightarrow> int" where
  \<comment> \<open>\<open>round(x)\<close> of one argument: to the nearest integer, a tie to the even one.\<close>
  "py_round x =
     (let f = \<lfloor>x\<rfloor>; r = x - of_int f
      in if r < 1 / 2 then f
         else if 1 / 2 < r then f + 1
         else if even f then f else f + 1)"

definition py_truediv :: "rat \<Rightarrow> rat \<Rightarrow> error + rat" where
  \<comment> \<open>\<open>a / b\<close>: division by zero raises ZeroDivisionError.\<close>
  "py_truediv a b = (if b = 0 then Inl ZeroDivisionError else Inr (a / b))"

definition py_floordiv :: "int \<Rightarrow> int \<Rightarrow> error + int" where
  \<comment> \<open>\<open>a // b\<close> rounds towards minus infinity, as \<open>div\<close> on \<open>int\<close> does; a zero divisor
      raises.\<close>
  "py_floordiv a b = (case b = 0 of True \<Rightarrow> Inl ZeroDivisionError | False \<Rightarrow> Inr (a div b))"

section \<open>Arrays\<close>

text \<open>
  A two-dimensional numpy array is a grid: its shape \<open>(gh, gw)\<close> and its rows. The shape
  is kept beside the rows because an array with no rows still has a width.
  A pixel buffer is a grid whose cells hold the values of one pixel (all its channels),
  together with its dtype class and its trailing shape (\<open>None\<close> for a 2-D buffer,
  \<open>Some c\<close> for \<open>c\<close> channels).
\<close>

record 'a grid =
  gh :: nat
  gw :: nat
  cells :: "'a list list"

datatype dtype = IntegerT | FloatingT

record pixels =
  px_dtype :: dtype
  px_chan :: "nat option"
  px_grid :: "rat list grid"

type_synonym mask = "bool grid"

definition shape_ok :: "'a grid \<Rightarrow> bool" where
  "shape_ok g = (length (cells g) = gh g \<and> list_all (\<lambda>row. length row = gw g) (cells g))"


definition zero_cell :: "pixels \<Rightarrow> rat list" where
  "zero_cell t = replicate (case px_chan t of None \<Rightarrow> 1 | Some c \<Rightarrow> c) 0"

definition np_ones :: "int \<Rightarrow> int \<Rightarrow> backend_error + mask" where
  \<comment> \<open>\<open>np.ones((h, w), bool)\<close>: a negative dimension raises ValueError.\<close>
  "np_ones h w =
     (if h < 0 \<or> w < 0 then Inl NegativeDimensions
      else Inr \<lparr>gh = nat h, gw = nat w, cells = replicate (nat h) (replicate (nat w) True)\<rparr>)"

definition np_pad :: "'a grid \<Rightarrow> (int \<times> int) \<times> (int \<times> int) \<Rightarrow> 'a \<Rightarrow> error + 'a grid" where
  \<comment> \<open>\<open>np.pad(a, [(p_top, p_bottom), (p_left, p_right)], "constant", constant_values=0)\<close>:
      a negative width raises ValueError.\<close>
  "np_pad g padding fill =
     (case padding of ((p_top, p_bottom), (p_left, p_right)) \<Rightarrow>
        if p_top < 0 \<or> p_bottom < 0 \<or> p_left < 0 \<or> p_right < 0 then Inl PadValueError
        else
          let w = nat p_left + gw g + nat p_right;
              blank = replicate w fill
          in Inr \<lparr>gh = nat p_top + gh g + nat p_bottom,
                  gw = w,
                  cells = replicate (nat p_top) blank
                          @ map (\<lambda>row. replicate (nat p_left) fill @ row @ replicate (nat p_right) fill)
                              (cells g)
                          @ replicate (nat p_bottom) blank\<rparr>)"

definition slice_indices :: "nat \<Rightarrow> int \<Rightarrow> int \<Rightarrow> nat \<times> nat" where
  \<comment> \<open>\<open>slice(a, b).indices(n)\<close> as (start, number of items): negative bounds count from
      the end, both are clamped to the axis.\<close>
  "slice_indices n a b =
     (let clamp = (\<lambda>i. if i < 0 then max (i + int n) 0 else min i (int n));
          start = clamp a; stop = clamp b
      in (nat start, nat (stop - start)))"

definition py_slice :: "'a list \<Rightarrow> int \<Rightarrow> int \<Rightarrow> 'a list" where
  "py_slice xs a b = (case slice_indices (length xs) a b of (s, k) \<Rightarrow> take k (drop s xs))"

definition slice2 :: "'a grid \<Rightarrow> int \<Rightarrow> int \<Rightarrow> int \<Rightarrow> int \<Rightarrow> 'a grid" where
  \<comment> \<open>\<open>a[y0:y1, x0:x1]\<close>\<close>
  "slice2 g y0 y1 x0 x1 =
     \<lparr>gh = snd (slice_indices (gh g) y0 y1),
      gw = snd (slice_indices (gw g) x0 x1),
      cells = map (\<lambda>row. py_slice row x0 x1) (py_slice (cells g) y0 y1)\<rparr>"

section \<open>The reader interface\<close>

text \<open>
  \<open>WSIReader\<close> is an abstract class: a backend supplies \<open>level_count\<close>,
  \<open>level_dimensions\<close> and \<open>_read_region\<close> (the field \<open>fetch\<close>: an Isabelle name
  cannot start with an underscore), and may override \<open>level_downsamples\<close>
  (\<open>native_downsamples = Some l\<close>); otherwise the base class derives them from the
  level widths. The properties memoise their lists; the metadata of an open slide does not
  change, so the model computes them afresh.
\<close>

record reader =
  level_count :: nat
  level_dimensions :: "(int \<times> int) list"
  native_downsamples :: "rat list option"
  fetch :: "int \<times> int \<Rightarrow> int \<Rightarrow> int \<times> int \<Rightarrow> backend_error + pixels \<times> mask"

fun derive_downsamples :: "int \<Rightarrow> (int \<times> int) list \<Rightarrow> nat list \<Rightarrow> error + rat list" where
  \<comment> \<open>the loop \<open>for level in range(self.level_count)\<close> of \<open>level_downsamples\<close>\<close>
  "derive_downsamples width dims [] = Inr []"
| "derive_downsamples width dims (level # levels) =
     ebind (py_index dims (int level)) (\<lambda>(w, h).
     ebind (py_truediv (of_int width) (of_int w)) (\<lambda>q.
     ebind (derive_downsamples width dims levels) (\<lambda>rest.
     Inr (of_int (py_round q) # rest))))"

definition level_downsamples :: "reader \<Rightarrow> error + rat list" where
  "level_downsamples rd =
     (case native_downsamples rd of
        Some l \<Rightarrow> Inr l
      | None \<Rightarrow>
          ebind (py_index (level_dimensions rd) 0) (\<lambda>(width, height).
          derive_downsamples width (level_dimensions rd) [0..<level_count rd]))"

fun scan_levels :: "rat list \<Rightarrow> rat \<Rightarrow> nat list \<Rightarrow> error + int option" where
  \<comment> \<open>the loop \<open>for i in range(1, self.level_count)\<close>: \<open>Some (i - 1)\<close> is the early return\<close>
  "scan_levels lds downsample [] = Inr None"
| "scan_levels lds downsample (i # rest) =
     ebind (py_index lds (int i)) (\<lambda>v.
     if downsample < v then Inr (Some (int i - 1)) else scan_levels lds downsample rest)"

definition get_best_level_for_downsample :: "reader \<Rightarrow> rat \<Rightarrow> error + int" where
  "get_best_level_for_downsample rd downsample =
     ebind (level_downsamples rd) (\<lambda>lds.
     ebind (py_index lds 0) (\<lambda>first.
     if downsample < first then Inr 0
     else
       ebind (scan_levels lds downsample [1..<level_count rd]) (\<lambda>r.
       case r of Some l \<Rightarrow> Inr l | None \<Rightarrow> Inr (int (level_count rd) - 1))))"

section \<open>Resampling and normalisation\<close>

text \<open>
  \<open>cv2.resize\<close> and the cast to \<open>float32\<close> are library code: the interpolation
  kernels and the rounding are parameters of the model. What the model fixes is what the
  reader relies on: the output has the requested size \<open>(h, w)\<close> for \<open>dsize = (w, h)\<close>,
  the dtype is kept, and an empty source or an empty target is refused.
\<close>

record numerics =
  cubic_px :: "rat list grid \<Rightarrow> nat \<Rightarrow> nat \<Rightarrow> nat \<Rightarrow> nat \<Rightarrow> rat list"
  cubic_u8 :: "rat grid \<Rightarrow> nat \<Rightarrow> nat \<Rightarrow> nat \<Rightarrow> nat \<Rightarrow> rat"
  to_float32 :: "rat \<Rightarrow> rat"

definition map_grid :: "('a \<Rightarrow> 'b) \<Rightarrow> 'a grid \<Rightarrow> 'b grid" where
  "map_grid f g = \<lparr>gh = gh g, gw = gw g, cells = map (map f) (cells g)\<rparr>"

definition resize_grid ::
  "('a grid \<Rightarrow> nat \<Rightarrow> nat \<Rightarrow> nat \<Rightarrow> nat \<Rightarrow> 'b) \<Rightarrow> 'a grid \<Rightarrow> int \<times> int \<Rightarrow> error + 'b grid" where
  "resize_grid kern g dsize =
     (case dsize of (w, h) \<Rightarrow>
        if gh g = 0 \<or> gw g = 0 \<or> w \<le> 0 \<or> h \<le> 0 then Inl ResizeError
        else Inr \<lparr>gh = nat h, gw = nat w,
                  cells = map (\<lambda>i. map (\<lambda>j. kern g (nat h) (nat w) i j) [0..<nat w]) [0..<nat h]\<rparr>)"

definition cv2_resize :: "numerics \<Rightarrow> pixels \<Rightarrow> int \<times> int \<Rightarrow> error + pixels" where
  \<comment> \<open>\<open>cv2.resize(tile, dsize, interpolation=cv2.INTER_CUBIC)\<close>; a single trailing
      channel is dropped from the shape of the result.\<close>
  "cv2_resize nm t dsize =
     ebind (resize_grid (cubic_px nm) (px_grid t) dsize) (\<lambda>g.
     Inr (t\<lparr>px_chan := (if px_chan t = Some 1 then None else px_chan t), px_grid := g\<rparr>))"

definition resize_mask :: "numerics \<Rightarrow> mask \<Rightarrow> int \<times> int \<Rightarrow> error + mask" where
  \<comment> \<open>\<open>cv2.resize(alfa_mask.astype(np.uint8), dsize, ...).astype(bool)\<close>\<close>
  "resize_mask nm m dsize =
     ebind (resize_grid (cubic_u8 nm) (map_grid (\<lambda>b. if b then 1 else 0) m) dsize) (\<lambda>g.
     Inr (map_grid (\<lambda>v. v \<noteq> 0) g))"

definition normalize_pixels :: "numerics \<Rightarrow> pixels \<Rightarrow> pixels" where
  \<comment> \<open>\<open>WSIReader._normalize\<close>\<close>
  "normalize_pixels nm t =
     (if px_dtype t = IntegerT
      then t\<lparr>px_dtype := FloatingT,
              px_grid := map_grid (map (\<lambda>v. to_float32 nm (v / 255))) (px_grid t)\<rparr>
      else t)"

definition pad_pixels :: "pixels \<Rightarrow> (int \<times> int) \<times> (int \<times> int) \<Rightarrow> error + pixels" where
  \<comment> \<open>\<open>np.pad(tile, padding + [(0, 0)] * (len(tile.shape) - 2), "constant", constant_values=0)\<close>\<close>
  "pad_pixels t padding =
     ebind (np_pad (px_grid t) padding (zero_cell t)) (\<lambda>g. Inr (t\<lparr>px_grid := g\<rparr>))"

section \<open>Reading a region by level\<close>

datatype size_arg = Square int | Rect int int

definition as_pair :: "size_arg \<Rightarrow> int \<times> int" where
  \<comment> \<open>\<open>if isinstance(tile_size, int): tile_size = (tile_size, tile_size)\<close>\<close>
  "as_pair s = (case s of Square n \<Rightarrow> (n, n) | Rect w h \<Rightarrow> (w, h))"

definition backend_call :: "backend_error + 'a \<Rightarrow> error + 'a" where
  "backend_call r = (case r of Inl e \<Rightarrow> Inl (Backend e) | Inr v \<Rightarrow> Inr v)"

definition request_frame ::
  "reader \<Rightarrow> int \<times> int \<Rightarrow> int \<Rightarrow> int \<times> int \<Rightarrow> bool
     \<Rightarrow> error + int \<times> (int \<times> int) \<times> (int \<times> int) \<times> (int \<times> int)" where
  \<comment> \<open>lines 49-59 of \<open>read_region\<close>: the factor, the origin, the extent and the bounds in
      the frame of the level that is fetched. Without the synthesis from level 0 the
      factor is not bound in the source and never read; it is 1 here.\<close>
  "request_frame rd x_y level tile_size downsample_level_0 =
     (case x_y of (x, y) \<Rightarrow>
      if downsample_level_0 \<and> level > 0 then
        ebind (py_index (level_dimensions rd) 0) (\<lambda>d0.
        ebind (py_index (level_dimensions rd) level) (\<lambda>dl.
        ebind (py_truediv (of_int (fst d0)) (of_int (fst dl))) (\<lambda>q.
        let downsample = py_round q
        in Inr (downsample,
                (x * downsample, y * downsample),
                (fst tile_size * downsample, snd tile_size * downsample),
                d0))))
      else
        ebind (py_index (level_dimensions rd) level) (\<lambda>dl.
        Inr (1, (x, y), tile_size, dl)))"

definition clip :: "int \<times> int \<Rightarrow> int \<times> int \<Rightarrow> int \<times> int \<Rightarrow> (int \<times> int) \<times> (int \<times> int)" where
  \<comment> \<open>lines 61-66 of \<open>read_region\<close>\<close>
  "clip x_y tile_size dims =
     (case x_y of (x, y) \<Rightarrow> case tile_size of (tile_w, tile_h) \<Rightarrow> case dims of (width, height) \<Rightarrow>
      let tile_w = (if x < 0 then tile_w + x else tile_w);
          tile_h = (if y < 0 then tile_h + y else tile_h);
          x = max x 0;
          y = max y 0;
          tile_w = (if x + tile_w > width then width - x else tile_w);
          tile_h = (if y + tile_h > height then height - y else tile_h)
      in ((x, y), (tile_w, tile_h)))"

definition shrink_back ::
  "numerics \<Rightarrow> int \<Rightarrow> int \<times> int \<Rightarrow> int \<times> int \<Rightarrow> pixels \<times> mask
     \<Rightarrow> error + (int \<times> int) \<times> (int \<times> int) \<times> pixels \<times> mask" where
  \<comment> \<open>lines 72-81 of \<open>read_region\<close>\<close>
  "shrink_back nm downsample x_y tile_size fetched =
     (case x_y of (x, y) \<Rightarrow> case tile_size of (tile_w, tile_h) \<Rightarrow> case fetched of (tile, alfa_mask) \<Rightarrow>
      ebind (py_floordiv tile_w downsample) (\<lambda>tile_w.
      ebind (py_floordiv tile_h downsample) (\<lambda>tile_h.
      ebind (py_floordiv x downsample) (\<lambda>x.
      ebind (py_floordiv y downsample) (\<lambda>y.
      ebind (cv2_resize nm tile (tile_w, tile_h)) (\<lambda>tile.
      ebind (resize_mask nm alfa_mask (tile_w, tile_h)) (\<lambda>alfa_mask.
      Inr ((x, y), (tile_w, tile_h), tile, alfa_mask))))))))"

definition pad_back ::
  "int \<times> int \<Rightarrow> int \<times> int \<Rightarrow> int \<times> int \<Rightarrow> int \<times> int \<Rightarrow> pixels \<times> mask \<Rightarrow> error + pixels \<times> mask" where
  \<comment> \<open>lines 86-98 of \<open>read_region\<close>: \<open>x_y\<close> and \<open>tile_size\<close> are the caller's\<close>
  "pad_back x_y tile_size xy_clipped size_clipped fetched =
     (case xy_clipped of (x, y) \<Rightarrow> case size_clipped of (tile_w, tile_h) \<Rightarrow>
      case fetched of (tile, alfa_mask) \<Rightarrow>
      let padding = ((y - snd x_y, snd tile_size - tile_h + min (snd x_y) 0),
                     (x - fst x_y, fst tile_size - tile_w + min (fst x_y) 0))
      in ebind (pad_pixels tile padding) (\<lambda>tile.
         ebind (np_pad alfa_mask padding False) (\<lambda>alfa_mask.
         Inr (tile, alfa_mask))))"

text \<open>
  The flag \<open>normalize\<close> of the source is \<open>normalize_flag\<close> below (\<open>normalize\<close> is a
  constant of HOL).
\<close>

definition read_region ::
  "reader \<Rightarrow> numerics \<Rightarrow> int \<times> int \<Rightarrow> int \<Rightarrow> size_arg \<Rightarrow> bool \<Rightarrow> bool \<Rightarrow> error + pixels \<times> mask" where
  "read_region rd nm x_y level tile_size normalize_flag downsample_level_0 =
     (let tile_size = as_pair tile_size
      in ebind (request_frame rd x_y level tile_size downsample_level_0)
           (\<lambda>(downsample, xy_frame, size_frame, dims).
         case clip xy_frame size_frame dims of (xy_clipped, size_clipped) \<Rightarrow>
         ebind (backend_call (fetch rd xy_clipped (if downsample_level_0 then 0 else level) size_clipped))
           (\<lambda>fetched.
         ebind (if downsample_level_0 \<and> level > 0
                then shrink_back nm downsample xy_clipped size_clipped fetched
                else Inr (xy_clipped, size_clipped, fetched))
           (\<lambda>(xy_clipped, size_clipped, tile, alfa_mask).
         let tile = (if normalize_flag then normalize_pixels nm tile else tile)
         in pad_back x_y tile_size xy_clipped size_clipped (tile, alfa_mask)))))"

section \<open>Reading a region by downsample factor\<close>

definition rescale :: "int \<Rightarrow> rat \<Rightarrow> rat \<Rightarrow> error + int" where
  \<comment> \<open>\<open>round(v * downsample / self.level_downsamples[level])\<close>\<close>
  "rescale v downsample l =
     ebind (py_truediv (of_int v * downsample) l) (\<lambda>q. Inr (py_round q))"

definition read_region_ds ::
  "reader \<Rightarrow> numerics \<Rightarrow> int \<times> int \<Rightarrow> rat \<Rightarrow> size_arg \<Rightarrow> bool \<Rightarrow> bool \<Rightarrow> error + pixels \<times> mask" where
  "read_region_ds rd nm x_y downsample tile_size normalize_flag downsample_level_0 =
     (if downsample \<le> 0 then Inl InvalidArgument
      else
        let tile_size = as_pair tile_size;
            downsample_level_0 = (if downsample = 1 then False else downsample_level_0)
        in
        ebind (level_downsamples rd) (\<lambda>lds.
        ebind
          (if downsample \<in> set lds \<and> \<not> downsample_level_0 then
             ebind (get_best_level_for_downsample rd downsample) (\<lambda>level.
             read_region rd nm x_y level (Rect (fst tile_size) (snd tile_size)) False False)
           else
             ebind (if downsample_level_0 then Inr 0
                    else get_best_level_for_downsample rd downsample) (\<lambda>level.
             ebind (level_downsamples rd) (\<lambda>lds.
             ebind (py_index lds level) (\<lambda>l.
             ebind (rescale (fst x_y) downsample l) (\<lambda>x_level.
             ebind (rescale (snd x_y) downsample l) (\<lambda>y_level.
             ebind (rescale (fst tile_size) downsample l) (\<lambda>w_level.
             ebind (rescale (snd tile_size) downsample l) (\<lambda>h_level.
             ebind (read_region rd nm (x_level, y_level) level (Rect w_level h_level)
                      False downsample_level_0) (\<lambda>(tile, alfa_mask).
             ebind (cv2_resize nm tile tile_size) (\<lambda>tile.
             ebind (resize_mask nm alfa_mask tile_size) (\<lambda>alfa_mask.
             Inr (tile, alfa_mask))))))))))))
          (\<lambda>(tile, alfa_mask).
        Inr (if normalize_flag then normalize_pixels nm tile else tile, alfa_mask))))"

section \<open>Derived helpers\<close>

fun index_of :: "'a list \<Rightarrow> 'a \<Rightarrow> nat" where
  \<comment> \<open>\<open>list.index\<close> of a value that is in the list: the first position that holds it\<close>
  "index_of [] v = 0"
| "index_of (x # xs) v = (if x = v then 0 else Suc (index_of xs v))"

definition get_dimensions_for_downsample :: "reader \<Rightarrow> rat \<Rightarrow> error + int \<times> int" where
  "get_dimensions_for_downsample rd downsample =
     (if downsample \<le> 0 then Inl InvalidArgument
      else
        ebind (level_downsamples rd) (\<lambda>lds.
        if downsample \<in> set lds then
          py_index (level_dimensions rd) (int (index_of lds downsample))
        else
          ebind (py_index (level_dimensions rd) 0) (\<lambda>(w, h).
          Inr (py_round (of_int w / downsample), py_round (of_int h / downsample)))))"



section \<open>The tifffile backend\<close>

text \<open>
  \<open>TiffReader\<close> holds one array per level (\<open>self._z\<close>) and reads the level sizes from
  the pages of the file. It does not override \<open>level_downsamples\<close>.
\<close>

definition TiffReader_read_region ::
  "pixels list \<Rightarrow> int \<times> int \<Rightarrow> int \<Rightarrow> int \<times> int \<Rightarrow> backend_error + pixels \<times> mask" where
  \<comment> \<open>\<open>TiffReader._read_region\<close>: the slice is taken first, then \<open>np.ones\<close> builds the mask\<close>
  "TiffReader_read_region z x_y level tile_size =
     (case x_y of (x, y) \<Rightarrow>
       (case tile_size of (tile_w, tile_h) \<Rightarrow>
         (case py_index z level of
            Inl e \<Rightarrow> Inl BackendFault
          | Inr a \<Rightarrow>
              (case np_ones tile_h tile_w of
                 Inl e \<Rightarrow> Inl e
               | Inr m \<Rightarrow>
                   Inr (a\<lparr>px_grid := slice2 (px_grid a) y (y + tile_h) x (x + tile_w)\<rparr>, m)))))"

definition TiffReader :: "pixels list \<Rightarrow> (int \<times> int) list \<Rightarrow> reader" where
  "TiffReader z dims =
     \<lparr>level_count = length z,
      level_dimensions = dims,
      native_downsamples = None,
      fetch = TiffReader_read_region z\<rparr>"

section \<open>Example slides\<close>

text \<open>
  A three-level pyramid whose backend refuses every fetch: the level selector and the
  derived downsample factors do not need the pixels.
\<close>

definition pyramid3 :: reader where
  "pyramid3 =
     \<lparr>level_count = 3,
      level_dimensions = [(1000, 1000), (500, 500), (250, 250)],
      native_downsamples = None,
      fetch = (\<lambda>x_y level tile_size. Inl BackendFault)\<rparr>"



text \<open>
  Library numerics for the examples: a resize that copies the source cell nearest to the
  top-left corner, and a cast that changes nothing.
\<close>

definition plain_numerics :: numerics where
  "plain_numerics =
     \<lparr>cubic_px = (\<lambda>g h w i j. cells g ! 0 ! 0),
      cubic_u8 = (\<lambda>g h w i j. cells g ! 0 ! 0),
      to_float32 = (\<lambda>v. v)\<rparr>"

text \<open>
  A slide of one level whose pixels all have the same three channel values, read through
  the tifffile backend, and the tile and mask that backend returns for a square region.
\<close>

definition uniform_tile :: "nat \<Rightarrow> pixels" where
  "uniform_tile n =
     \<lparr>px_dtype = IntegerT, px_chan = Some 3,
      px_grid = \<lparr>gh = n, gw = n, cells = replicate n (replicate n [200, 100, 50])\<rparr>\<rparr>"


definition tiff1000 :: reader where
  "tiff1000 = TiffReader [uniform_tile 1000] [(1000, 1000)]"


text \<open>
  A slide of two by two one-channel integer pixels behind the tifffile backend.
\<close>

definition tiny :: pixels where
  "tiny =
     \<lparr>px_dtype = IntegerT, px_chan = Some 1,
      px_grid = \<lparr>gh = 2, gw = 2, cells = [[[255], [51]], [[0], [102]]]\<rparr>\<rparr>"

definition tiff2 :: reader where
  "tiff2 = TiffReader [tiny] [(2, 2)]"



section \<open>Properties\<close>

subsection \<open>The level selector\<close>

lemma ebind_Inr: "ebind (Inr v) f = f v"
  by (simp add: ebind_def)

lemma ebind_Inl: "ebind (Inl e) f = Inl e"
  by (simp add: ebind_def)

lemma py_index_nat: "i < length xs \<Longrightarrow> py_index xs (int i) = Inr (xs ! i)"
  by (simp add: py_index_def)

lemma py_index_0: "xs \<noteq> [] \<Longrightarrow> py_index xs 0 = Inr (xs ! 0)"
  using py_index_nat [of 0 xs] by simp

lemma scan_levels_total:
  "\<forall>i\<in>set js. i < length lds \<Longrightarrow> \<exists>r. scan_levels lds d js = Inr r"
  by (induction js) (auto simp: py_index_nat ebind_Inr)

lemma scan_levels_Some:
  "scan_levels lds d js = Inr (Some l) \<Longrightarrow> \<exists>i\<in>set js. l = int i - 1"
  by (induction js) (auto simp: ebind_def split: sum.splits if_splits)

lemma scan_levels_mono:
  assumes "d \<le> d'" "sorted_wrt (<) js" "\<forall>i\<in>set js. i < n"
    and "scan_levels lds d js = Inr r" "scan_levels lds d' js = Inr r'"
  shows "(case r of Some l \<Rightarrow> l | None \<Rightarrow> int n - 1) \<le> (case r' of Some l \<Rightarrow> l | None \<Rightarrow> int n - 1)"
  using assms
proof (induction js)
  case Nil
  then show ?case by simp
next
  case (Cons i js)
  from Cons.prems(4) obtain v where v: "py_index lds (int i) = Inr v"
    by (auto simp: ebind_def split: sum.splits)
  show ?case
  proof (cases "d < v")
    case True
    then have r: "r = Some (int i - 1)" using Cons.prems(4) v by (simp add: ebind_Inr)
    show ?thesis
    proof (cases "d' < v")
      case True
      then have "r' = Some (int i - 1)" using Cons.prems(5) v by (simp add: ebind_Inr)
      with r show ?thesis by simp
    next
      case False
      then have s: "scan_levels lds d' js = Inr r'" using Cons.prems(5) v by (simp add: ebind_Inr)
      show ?thesis
      proof (cases r')
        case None
        then show ?thesis using r Cons.prems(3) by simp
      next
        case (Some l)
        with s obtain j where "j \<in> set js" "l = int j - 1"
          using scan_levels_Some by blast
        moreover have "i < j" using Cons.prems(2) \<open>j \<in> set js\<close> by simp
        ultimately show ?thesis using r Some by simp
      qed
    qed
  next
    case False
    then have "\<not> d' < v" using Cons.prems(1) by simp
    with False have "scan_levels lds d js = Inr r" "scan_levels lds d' js = Inr r'"
      using Cons.prems(4,5) v by (simp_all add: ebind_Inr)
    then show ?thesis using Cons.IH Cons.prems(1,2,3) by simp
  qed
qed

lemma scan_levels_exact:
  assumes "sorted_wrt (<) lds" "i < length lds" "k \<le> Suc i" "n = length lds"
  shows "scan_levels lds (lds ! i) [k..<n] = Inr (if Suc i < n then Some (int i) else None)"
  using assms
proof (induction "n - k" arbitrary: k)
  case 0
  then show ?case by simp
next
  case (Suc m)
  then have kn: "k < n" by simp
  then have up: "[k..<n] = k # [Suc k..<n]" by (simp add: upt_conv_Cons)
  have idx: "py_index lds (int k) = Inr (lds ! k)" using kn Suc.prems(4) by (simp add: py_index_nat)
  show ?case
  proof (cases "k = Suc i")
    case True
    then have "lds ! i < lds ! k" using Suc.prems(1) kn Suc.prems(4)
      by (simp add: sorted_wrt_nth_less)
    then show ?thesis using up idx True kn by (simp add: ebind_Inr)
  next
    case False
    then have ki: "k \<le> i" using Suc.prems(3) by simp
    then have "\<not> lds ! i < lds ! k"
    proof (cases "k = i")
      case True then show ?thesis by simp
    next
      case False
      with ki have "k < i" by simp
      then have "lds ! k < lds ! i" using Suc.prems(1,2) by (simp add: sorted_wrt_nth_less)
      then show ?thesis by simp
    qed
    moreover have "scan_levels lds (lds ! i) [Suc k..<n] = Inr (if Suc i < n then Some (int i) else None)"
      using Suc.hyps(1)[of "Suc k"] Suc.hyps(2) Suc.prems ki by simp
    ultimately show ?thesis using up idx by (simp add: ebind_Inr)
  qed
qed


lemma py_round_vals: "py_round 1 = 1" "py_round 2 = 2" "py_round 4 = 4"
  by (simp_all add: py_round_def)

lemma pyramid3_downsamples: "level_downsamples pyramid3 = Inr [1, 2, 4]"
  by (simp add: level_downsamples_def pyramid3_def py_index_def ebind_def py_truediv_def
      upt_conv_Cons py_round_def)

lemma best_level_unfold:
  assumes "level_downsamples rd = Inr lds" "lds \<noteq> []"
  shows "get_best_level_for_downsample rd d =
          (if d < lds ! 0 then Inr 0
           else ebind (scan_levels lds d [1..<level_count rd])
                  (\<lambda>r. case r of Some l \<Rightarrow> Inr l | None \<Rightarrow> Inr (int (level_count rd) - 1)))"
  using assms by (simp add: get_best_level_for_downsample_def ebind_Inr py_index_0)

text \<open>
  C10: for a slide with at least one level (and one downsample factor per level),
  \<open>get_best_level_for_downsample\<close> returns, for every argument whatsoever (zero and
  negative ones included: the selector has no guard), a level in \<open>[0, level_count)\<close>;
  an argument below \<open>level_downsamples[0]\<close> gives level 0.
\<close>

theorem best_level_in_range:
  assumes "1 \<le> level_count rd" "level_downsamples rd = Inr lds" "length lds = level_count rd"
  shows "(\<exists>l. get_best_level_for_downsample rd d = Inr l \<and> 0 \<le> l \<and> l < int (level_count rd))
         \<and> (d < lds ! 0 \<longrightarrow> get_best_level_for_downsample rd d = Inr 0)"
proof -
  have ne: "lds \<noteq> []" using assms(1,3) by auto
  note unf = best_level_unfold [OF assms(2) ne, of d]
  have "\<forall>i\<in>set [1..<level_count rd]. i < length lds" using assms(3) by simp
  then obtain r where r: "scan_levels lds d [1..<level_count rd] = Inr r"
    using scan_levels_total by blast
  have rng: "\<exists>l. get_best_level_for_downsample rd d = Inr l \<and> 0 \<le> l \<and> l < int (level_count rd)"
  proof (cases "d < lds ! 0")
    case True
    then show ?thesis using unf assms(1) by simp
  next
    case False
    show ?thesis
    proof (cases r)
      case None
      then show ?thesis using unf False r assms(1) by (simp add: ebind_Inr)
    next
      case (Some l)
      then obtain i where "i \<in> set [1..<level_count rd]" "l = int i - 1"
        using scan_levels_Some r by blast
      then show ?thesis using unf False r Some by (simp add: ebind_Inr)
    qed
  qed
  moreover have "d < lds ! 0 \<longrightarrow> get_best_level_for_downsample rd d = Inr 0"
    using unf by simp
  ultimately show ?thesis by blast
qed

theorem best_level_in_range_witness:
  "1 \<le> level_count pyramid3
   \<and> level_downsamples pyramid3 = Inr [1, 2, 4]
   \<and> length [1, 2, 4 :: rat] = level_count pyramid3
   \<and> (\<exists>l. get_best_level_for_downsample pyramid3 (- 3) = Inr l \<and> 0 \<le> l \<and> l < 3)
   \<and> get_best_level_for_downsample pyramid3 (- 3) = Inr 0"
proof -
  have a: "1 \<le> level_count pyramid3" by (simp add: pyramid3_def)
  have c: "length [1, 2, 4 :: rat] = level_count pyramid3" by (simp add: pyramid3_def)
  have n: "int (level_count pyramid3) = 3" by (simp add: pyramid3_def)
  show ?thesis
    using best_level_in_range [OF a pyramid3_downsamples c, of "- 3"] a c n pyramid3_downsamples
    by simp
qed

text \<open>
  C5: when the downsample factors are strictly increasing and start at 1.0,
  \<open>get_best_level_for_downsample\<close> is monotonic non-decreasing in its argument, and at
  the factor of level \<open>i\<close> it returns \<open>i\<close> itself, for every valid \<open>i\<close>.
\<close>

theorem best_level_monotone_exact:
  assumes "level_downsamples rd = Inr lds" "length lds = level_count rd"
    and "sorted_wrt (<) lds" "py_index lds 0 = Inr 1"
  shows "(\<forall>d d'. d \<le> d' \<longrightarrow>
            (\<exists>l l'. get_best_level_for_downsample rd d = Inr l
                    \<and> get_best_level_for_downsample rd d' = Inr l' \<and> l \<le> l'))
         \<and> (\<forall>i < level_count rd. get_best_level_for_downsample rd (lds ! i) = Inr (int i))"
proof -
  have ne: "lds \<noteq> []" using assms(4) by (auto simp: py_index_def)
  let ?n = "level_count rd"
  have n1: "1 \<le> ?n" using ne assms(2) by (cases lds) auto
  have inr: "\<forall>i\<in>set [1..<?n]. i < length lds" using assms(2) by simp
  have inr': "\<forall>i\<in>set [1..<?n]. i < ?n" by simp
  have srt: "sorted_wrt (<) [1..<?n]" by simp
  have mono: "\<exists>l l'. get_best_level_for_downsample rd d = Inr l
                    \<and> get_best_level_for_downsample rd d' = Inr l' \<and> l \<le> l'"
    if le: "d \<le> d'" for d d'
  proof -
    obtain r where r: "scan_levels lds d [1..<?n] = Inr r"
      using scan_levels_total [OF inr] by blast
    obtain r' where r': "scan_levels lds d' [1..<?n] = Inr r'"
      using scan_levels_total [OF inr] by blast
    let ?fin = "\<lambda>r. case r of Some l \<Rightarrow> l | None \<Rightarrow> int ?n - 1"
    have m: "?fin r \<le> ?fin r'"
      using scan_levels_mono [OF le srt inr' r r'] .
    have nonneg: "0 \<le> ?fin r'"
    proof (cases r')
      case None then show ?thesis using n1 by simp
    next
      case (Some l)
      then obtain i where "i \<in> set [1..<?n]" "l = int i - 1"
        using scan_levels_Some r' by blast
      then show ?thesis using Some by simp
    qed
    have g: "get_best_level_for_downsample rd d = (if d < lds ! 0 then Inr 0 else Inr (?fin r))"
      using best_level_unfold [OF assms(1) ne, of d] r
      by (cases r) (simp_all add: ebind_Inr)
    have g': "get_best_level_for_downsample rd d' = (if d' < lds ! 0 then Inr 0 else Inr (?fin r'))"
      using best_level_unfold [OF assms(1) ne, of d'] r'
      by (cases r') (simp_all add: ebind_Inr)
    show ?thesis using g g' m nonneg le by auto
  qed
  have exact: "get_best_level_for_downsample rd (lds ! i) = Inr (int i)" if i: "i < ?n" for i
  proof -
    have il: "i < length lds" using i assms(2) by simp
    have nlt: "\<not> lds ! i < lds ! 0"
    proof (cases "i = 0")
      case True then show ?thesis by simp
    next
      case False
      then have "lds ! 0 < lds ! i" using assms(3) il by (simp add: sorted_wrt_nth_less)
      then show ?thesis by simp
    qed
    have sc: "scan_levels lds (lds ! i) [1..<?n] = Inr (if Suc i < ?n then Some (int i) else None)"
      using scan_levels_exact [OF assms(3) il, of 1 ?n] assms(2) by simp
    show ?thesis
      using best_level_unfold [OF assms(1) ne, of "lds ! i"] nlt sc i
      by (auto simp: ebind_Inr)
  qed
  show ?thesis using mono exact by blast
qed

theorem best_level_monotone_exact_witness:
  "level_downsamples pyramid3 = Inr [1, 2, 4]
   \<and> length [1, 2, 4 :: rat] = level_count pyramid3
   \<and> sorted_wrt (<) [1, 2, 4 :: rat]
   \<and> py_index [1, 2, 4 :: rat] 0 = Inr 1
   \<and> (\<exists>l l'. get_best_level_for_downsample pyramid3 (3 / 2) = Inr l
              \<and> get_best_level_for_downsample pyramid3 3 = Inr l' \<and> l \<le> l')
   \<and> get_best_level_for_downsample pyramid3 ([1, 2, 4] ! 1) = Inr 1"
proof -
  have b: "length [1, 2, 4 :: rat] = level_count pyramid3" by (simp add: pyramid3_def)
  have c: "sorted_wrt (<) [1, 2, 4 :: rat]" by simp
  have d: "py_index [1, 2, 4 :: rat] 0 = Inr 1" by (simp add: py_index_def)
  have n: "(1::nat) < level_count pyramid3" by (simp add: pyramid3_def)
  have le: "(3 / 2 :: rat) \<le> 3" by simp
  note t = best_level_monotone_exact [OF pyramid3_downsamples b c d]
  from t have m: "\<exists>l l'. get_best_level_for_downsample pyramid3 (3 / 2) = Inr l
              \<and> get_best_level_for_downsample pyramid3 3 = Inr l' \<and> l \<le> l'"
    using le by blast
  from t n have e: "get_best_level_for_downsample pyramid3 ([1, 2, 4] ! 1) = Inr (int 1)"
    by blast
  show ?thesis using pyramid3_downsamples b c d m e by simp
qed

subsection \<open>The derived downsample factors\<close>








subsection \<open>The guard on the downsample factor\<close>

lemma ebind_guard_iff:
  "(ebind m f = Inl InvalidArgument)
     = (m = Inl InvalidArgument \<or> (\<exists>v. m = Inr v \<and> f v = Inl InvalidArgument))"
  by (cases m) (simp_all add: ebind_def)

lemma py_index_no_guard: "py_index xs i \<noteq> Inl InvalidArgument"
  by (simp add: py_index_def)

lemma py_truediv_no_guard: "py_truediv a b \<noteq> Inl InvalidArgument"
  by (simp add: py_truediv_def)

lemma py_floordiv_no_guard: "py_floordiv a b \<noteq> Inl InvalidArgument"
  by (cases "b = 0") (simp_all add: py_floordiv_def)

lemma np_pad_no_guard: "np_pad g padding fill \<noteq> Inl InvalidArgument"
  by (simp add: np_pad_def Let_def split: prod.splits)

lemma resize_grid_no_guard: "resize_grid kern g dsize \<noteq> Inl InvalidArgument"
  by (simp add: resize_grid_def split: prod.splits)

lemma backend_call_no_guard: "backend_call r \<noteq> Inl InvalidArgument"
  by (cases r) (simp_all add: backend_call_def)

lemmas leaf_no_guard =
  py_index_no_guard py_truediv_no_guard py_floordiv_no_guard np_pad_no_guard
  resize_grid_no_guard backend_call_no_guard

lemma cv2_resize_no_guard: "cv2_resize nm t dsize \<noteq> Inl InvalidArgument"
  by (simp add: cv2_resize_def ebind_guard_iff leaf_no_guard)

lemma resize_mask_no_guard: "resize_mask nm m dsize \<noteq> Inl InvalidArgument"
  by (simp add: resize_mask_def ebind_guard_iff leaf_no_guard)

lemma pad_pixels_no_guard: "pad_pixels t padding \<noteq> Inl InvalidArgument"
  by (simp add: pad_pixels_def ebind_guard_iff leaf_no_guard)

lemma derive_downsamples_no_guard: "derive_downsamples width dims ls \<noteq> Inl InvalidArgument"
  by (induction ls) (simp_all add: ebind_guard_iff leaf_no_guard case_prod_beta)

lemma level_downsamples_no_guard: "level_downsamples rd \<noteq> Inl InvalidArgument"
  by (simp add: level_downsamples_def ebind_guard_iff leaf_no_guard derive_downsamples_no_guard
      case_prod_beta split: option.splits)

lemma scan_levels_no_guard: "scan_levels lds d js \<noteq> Inl InvalidArgument"
  by (induction js) (simp_all add: ebind_guard_iff leaf_no_guard)

lemma best_level_no_guard: "get_best_level_for_downsample rd d \<noteq> Inl InvalidArgument"
  by (simp add: get_best_level_for_downsample_def ebind_guard_iff leaf_no_guard
      level_downsamples_no_guard scan_levels_no_guard split: option.splits)

lemma request_frame_no_guard:
  "request_frame rd x_y level tile_size d0 \<noteq> Inl InvalidArgument"
  by (simp add: request_frame_def ebind_guard_iff leaf_no_guard Let_def case_prod_beta)

lemma shrink_back_no_guard:
  "shrink_back nm downsample x_y tile_size fetched \<noteq> Inl InvalidArgument"
  by (simp add: shrink_back_def ebind_guard_iff leaf_no_guard cv2_resize_no_guard
      resize_mask_no_guard case_prod_beta)

lemma pad_back_no_guard:
  "pad_back x_y tile_size xy_clipped size_clipped fetched \<noteq> Inl InvalidArgument"
  by (simp add: pad_back_def ebind_guard_iff leaf_no_guard pad_pixels_no_guard Let_def
      case_prod_beta)

lemma read_region_no_guard:
  "read_region rd nm x_y level tile_size nf d0 \<noteq> Inl InvalidArgument"
  by (simp add: read_region_def ebind_guard_iff leaf_no_guard request_frame_no_guard
      shrink_back_no_guard pad_back_no_guard Let_def case_prod_beta)

lemma rescale_no_guard: "rescale v downsample l \<noteq> Inl InvalidArgument"
  by (simp add: rescale_def ebind_guard_iff leaf_no_guard)

text \<open>
  C6: \<open>read_region_ds\<close> and \<open>get_dimensions_for_downsample\<close> raise the
  invalid-argument error exactly when the downsample factor is not positive. For such a
  factor the result is that error for every reader, whatever its metadata and its backend
  would answer: the guard is the first thing evaluated, so nothing is fetched before it.
  For a positive factor no computation of either function yields that error.
\<close>

theorem downsample_guard:
  "(downsample \<le> 0 \<longrightarrow>
      read_region_ds rd nm x_y downsample tile_size nf d0 = Inl InvalidArgument
      \<and> get_dimensions_for_downsample rd downsample = Inl InvalidArgument)
   \<and> (0 < downsample \<longrightarrow>
      read_region_ds rd nm x_y downsample tile_size nf d0 \<noteq> Inl InvalidArgument
      \<and> get_dimensions_for_downsample rd downsample \<noteq> Inl InvalidArgument)"
proof (intro conjI impI)
  assume "downsample \<le> 0"
  then show "read_region_ds rd nm x_y downsample tile_size nf d0 = Inl InvalidArgument"
    by (simp add: read_region_ds_def)
next
  assume "downsample \<le> 0"
  then show "get_dimensions_for_downsample rd downsample = Inl InvalidArgument"
    by (simp add: get_dimensions_for_downsample_def)
next
  assume pos: "0 < downsample"
  then show "read_region_ds rd nm x_y downsample tile_size nf d0 \<noteq> Inl InvalidArgument"
    by (simp add: read_region_ds_def ebind_guard_iff leaf_no_guard level_downsamples_no_guard
        best_level_no_guard read_region_no_guard rescale_no_guard cv2_resize_no_guard
        resize_mask_no_guard Let_def case_prod_beta)
next
  assume pos: "0 < downsample"
  then show "get_dimensions_for_downsample rd downsample \<noteq> Inl InvalidArgument"
    by (simp add: get_dimensions_for_downsample_def ebind_guard_iff leaf_no_guard
        level_downsamples_no_guard case_prod_beta)
qed

lemma past_guard:
  "read_region_ds pyramid3 plain_numerics (0, 0) 2 (Square 8) True False
       = Inl (Backend BackendFault)"
  by code_simp

theorem downsample_guard_witness:
  "(0 :: rat) \<le> 0
   \<and> read_region_ds pyramid3 plain_numerics (0, 0) 0 (Square 8) True False = Inl InvalidArgument
   \<and> get_dimensions_for_downsample pyramid3 0 = Inl InvalidArgument
   \<and> (0 :: rat) < 2
   \<and> read_region_ds pyramid3 plain_numerics (0, 0) 2 (Square 8) True False \<noteq> Inl InvalidArgument
   \<and> get_dimensions_for_downsample pyramid3 2 \<noteq> Inl InvalidArgument
   \<and> read_region_ds pyramid3 plain_numerics (0, 0) 2 (Square 8) True False
       = Inl (Backend BackendFault)"
  using downsample_guard [of 0 pyramid3 plain_numerics "(0, 0)" "Square 8" True False]
    downsample_guard [of 2 pyramid3 plain_numerics "(0, 0)" "Square 8" True False]
    past_guard
  by simp

subsection \<open>Padding and the negative-origin scenario\<close>

lemma np_pad_Inr:
  assumes "0 \<le> pt" "0 \<le> pb" "0 \<le> pl" "0 \<le> pr"
  shows "np_pad g ((pt, pb), (pl, pr)) fill =
     Inr \<lparr>gh = nat pt + gh g + nat pb,
          gw = nat pl + gw g + nat pr,
          cells = replicate (nat pt) (replicate (nat pl + gw g + nat pr) fill)
                  @ map (\<lambda>row. replicate (nat pl) fill @ row @ replicate (nat pr) fill) (cells g)
                  @ replicate (nat pb) (replicate (nat pl + gw g + nat pr) fill)\<rparr>"
  using assms by (simp add: np_pad_def Let_def)

lemma np_pad_Inl:
  "pt < 0 \<or> pb < 0 \<or> pl < 0 \<or> pr < 0 \<Longrightarrow> np_pad g ((pt, pb), (pl, pr)) fill = Inl PadValueError"
  by (auto simp: np_pad_def)

lemma np_pad_shape:
  assumes "np_pad g ((pt, pb), (pl, pr)) fill = Inr g'"
  shows "gh g' = nat pt + gh g + nat pb" "gw g' = nat pl + gw g + nat pr"
  using assms by (auto simp: np_pad_def Let_def split: if_splits)

lemma np_pad_shape_ok:
  assumes "shape_ok g" "np_pad g ((pt, pb), (pl, pr)) fill = Inr g'"
  shows "shape_ok g'"
  using assms by (auto simp: np_pad_def Let_def shape_ok_def list_all_iff split: if_splits)


lemma map_grid_shape:
  "gh (map_grid f g) = gh g" "gw (map_grid f g) = gw g"
  "shape_ok g \<Longrightarrow> shape_ok (map_grid f g)"
  by (simp_all add: map_grid_def shape_ok_def list_all_iff)

lemma normalize_pixels_shape:
  "gh (px_grid (normalize_pixels nm t)) = gh (px_grid t)"
  "gw (px_grid (normalize_pixels nm t)) = gw (px_grid t)"
  "px_chan (normalize_pixels nm t) = px_chan t"
  "zero_cell (normalize_pixels nm t) = zero_cell t"
  "shape_ok (px_grid t) \<Longrightarrow> shape_ok (px_grid (normalize_pixels nm t))"
  by (simp_all add: normalize_pixels_def map_grid_shape zero_cell_def)

lemma read_region_plain:
  assumes "\<not> (d0 \<and> level > 0)"
    and "py_index (level_dimensions rd) level = Inr dims"
    and "clip x_y (as_pair ts) dims = (xy_c, sz_c)"
    and "fetch rd xy_c (if d0 then 0 else level) sz_c = Inr (t, m)"
  shows "read_region rd nm x_y level ts nf d0 =
           pad_back x_y (as_pair ts) xy_c sz_c (if nf then normalize_pixels nm t else t, m)"
  using assms
  by (cases x_y)
     (auto simp: read_region_def request_frame_def ebind_Inr backend_call_def Let_def)




subsection \<open>The downsample 3.0 scenario\<close>


lemma read_region_unshrunk:
  assumes "\<not> (d0 \<and> level > 0)"
    and "py_index (level_dimensions rd) level = Inr dims"
    and "clip x_y (as_pair ts) dims = (xy_c, sz_c)"
  shows "read_region rd nm x_y level ts nf d0 =
           ebind (backend_call (fetch rd xy_c (if d0 then 0 else level) sz_c)) (\<lambda>(t, m).
           pad_back x_y (as_pair ts) xy_c sz_c (if nf then normalize_pixels nm t else t, m))"
proof -
  have rf: "request_frame rd x_y level (as_pair ts) d0 = Inr (1, x_y, as_pair ts, dims)"
    using assms(1,2) by (cases x_y) (auto simp: request_frame_def ebind_Inr)
  show ?thesis
    unfolding read_region_def Let_def rf ebind_Inr
    using assms(1,3)
    by (cases "backend_call (fetch rd xy_c (if d0 then 0 else level) sz_c)")
       (auto simp: ebind_def)
qed








subsection \<open>Normalisation\<close>








subsection \<open>The downsampled slide\<close>









subsection \<open>Requests outside the slide\<close>

lemma tiff1000_refuses_negative:
  "w < 0 \<or> h < 0 \<Longrightarrow> fetch tiff1000 x_y 0 (w, h) = Inl NegativeDimensions"
  by (cases x_y)
     (auto simp: tiff1000_def TiffReader_def TiffReader_read_region_def py_index_def np_ones_def)

lemma tiff1000_dims: "py_index (level_dimensions tiff1000) 0 = Inr (1000, 1000)"
  by (simp add: tiff1000_def TiffReader_def py_index_def)

lemma tiff1000_downsamples: "level_downsamples tiff1000 = Inr [1]"
  by (simp add: level_downsamples_def tiff1000_def TiffReader_def py_index_def ebind_def
      py_truediv_def py_round_vals)

lemma read_region_fetch_refused:
  assumes "\<not> (d0 \<and> level > 0)"
    and "py_index (level_dimensions rd) level = Inr dims"
    and "clip x_y (as_pair ts) dims = (xy_c, sz_c)"
    and "fetch rd xy_c (if d0 then 0 else level) sz_c = Inl e"
  shows "read_region rd nm x_y level ts nf d0 = Inl (Backend e)"
  using read_region_unshrunk [OF assms(1-3), of nm nf] assms(4)
  by (simp add: backend_call_def ebind_Inl)

text \<open>
  C2 fails on the code: a request that lies wholly beyond the right and bottom edges of a
  1000 by 1000 slide is clipped to the extent \<open>(-1000, -1000)\<close>, that extent is handed
  to the backend as it is, and \<open>TiffReader._read_region\<close> raises in
  \<open>np.ones((-1000, -1000), bool)\<close>. No all-padding buffer is returned.
\<close>

theorem outside_bounds_raises:
  "clip (2000, 2000) (as_pair (Rect 50 50)) (1000, 1000) = ((2000, 2000), (- 1000, - 1000))
   \<and> read_region tiff1000 nm (2000, 2000) 0 (Rect 50 50) nf d0 = Inl (Backend NegativeDimensions)"
proof -
  have c: "clip (2000, 2000) (as_pair (Rect 50 50)) (1000, 1000) = ((2000, 2000), (- 1000, - 1000))"
    by (simp add: clip_def as_pair_def)
  have f: "fetch tiff1000 (2000, 2000) (if d0 then 0 else 0) (- 1000, - 1000) = Inl NegativeDimensions"
    using tiff1000_refuses_negative [of "- 1000" "- 1000" "(2000, 2000)"] by simp
  show ?thesis
    using c read_region_fetch_refused [OF _ tiff1000_dims c f, of nm nf] by simp
qed

text \<open>
  C1 fails on the code for the same reason: with an origin far enough to the top left
  the clipped extent is negative, and neither \<open>read_region\<close> nor \<open>read_region_ds\<close>
  returns a buffer at all, so no buffer of the requested shape.
\<close>

theorem requested_shape_not_returned:
  "read_region tiff1000 nm (- 100, - 100) 0 (Rect 50 50) nf d0 = Inl (Backend NegativeDimensions)
   \<and> read_region_ds tiff1000 nm (- 100, - 100) 1 (Rect 50 50) nf d0
       = Inl (Backend NegativeDimensions)"
proof -
  have c: "clip (- 100, - 100) (as_pair (Rect 50 50)) (1000, 1000) = ((0, 0), (- 50, - 50))"
    by (simp add: clip_def as_pair_def)
  have f: "fetch tiff1000 (0, 0) (if d then 0 else 0) (- 50, - 50) = Inl NegativeDimensions" for d
    using tiff1000_refuses_negative [of "- 50" "- 50" "(0, 0)"] by simp
  have r: "read_region tiff1000 nm (- 100, - 100) 0 (Rect 50 50) n d = Inl (Backend NegativeDimensions)"
    for n d
    using read_region_fetch_refused [OF _ tiff1000_dims c f, of d nm n] by simp
  have l: "get_best_level_for_downsample tiff1000 1 = Inr 0"
    using best_level_unfold [OF tiff1000_downsamples, of 1]
    by (simp add: tiff1000_def TiffReader_def ebind_Inr)
  have "read_region_ds tiff1000 nm (- 100, - 100) 1 (Rect 50 50) nf d0
       = Inl (Backend NegativeDimensions)"
    by (simp add: read_region_ds_def tiff1000_downsamples l r as_pair_def ebind_Inr ebind_Inl)
  then show ?thesis using r by simp
qed

text \<open>
  What the clipping and the padding do achieve: the two pads of an axis are never
  negative, and together with the clipped extent they add up to the requested extent. So
  whenever the clipped extent is not negative and the backend returns a tile of that
  extent, the buffer and the mask have exactly the requested size.
\<close>

lemma clip_origin:
  "fst (clip (x0, y0) (w, h) (width, height)) = (max x0 0, max y0 0)"
  by (simp add: clip_def Let_def)

lemma clip_extent:
  "snd (clip (x0, y0) (w, h) (width, height)) =
     (if width < max x0 0 + (if x0 < 0 then w + x0 else w)
      then width - max x0 0 else (if x0 < 0 then w + x0 else w),
      if height < max y0 0 + (if y0 < 0 then h + y0 else h)
      then height - max y0 0 else (if y0 < 0 then h + y0 else h))"
  by (simp add: clip_def Let_def)

lemma clip_pads:
  assumes "clip (x0, y0) (w, h) (width, height) = ((x, y), (cw, ch))"
  shows "0 \<le> x - x0" "0 \<le> w - cw + min x0 0" "(x - x0) + cw + (w - cw + min x0 0) = w"
    and "0 \<le> y - y0" "0 \<le> h - ch + min y0 0" "(y - y0) + ch + (h - ch + min y0 0) = h"
proof -
  have o: "(x, y) = (max x0 0, max y0 0)"
    using clip_origin [of x0 y0 w h width height] assms by simp
  have s: "(cw, ch) =
     (if width < max x0 0 + (if x0 < 0 then w + x0 else w)
      then width - max x0 0 else (if x0 < 0 then w + x0 else w),
      if height < max y0 0 + (if y0 < 0 then h + y0 else h)
      then height - max y0 0 else (if y0 < 0 then h + y0 else h))"
    using clip_extent [of x0 y0 w h width height] assms by simp
  from o have x: "x = max x0 0" and y: "y = max y0 0" by simp_all
  from s have cw: "cw = (if width < max x0 0 + (if x0 < 0 then w + x0 else w)
      then width - max x0 0 else (if x0 < 0 then w + x0 else w))"
    and ch: "ch = (if height < max y0 0 + (if y0 < 0 then h + y0 else h)
      then height - max y0 0 else (if y0 < 0 then h + y0 else h))"
    by simp_all
  show "0 \<le> x - x0" using x by linarith
  show "0 \<le> y - y0" using y by linarith
  show "0 \<le> w - cw + min x0 0" unfolding cw by (cases "x0 < 0") auto
  show "0 \<le> h - ch + min y0 0" unfolding ch by (cases "y0 < 0") auto
  show "(x - x0) + cw + (w - cw + min x0 0) = w" using x by linarith
  show "(y - y0) + ch + (h - ch + min y0 0) = h" using y by linarith
qed

lemma nat_sum3:
  assumes "0 \<le> a" "0 \<le> b" "0 \<le> c" "a + b + c = (d :: int)"
  shows "nat a + nat b + nat c = nat d"
  using assms by linarith

lemma read_region_requested_shape:
  assumes "\<not> (d0 \<and> level > 0)"
    and "py_index (level_dimensions rd) level = Inr (width, height)"
    and "clip (x0, y0) (w, h) (width, height) = ((x, y), (cw, ch))"
    and "fetch rd (x, y) (if d0 then 0 else level) (cw, ch) = Inr (t, m)"
    and "0 \<le> cw" "0 \<le> ch"
    and "gh (px_grid t) = nat ch" "gw (px_grid t) = nat cw" "gh m = nat ch" "gw m = nat cw"
  shows "\<exists>T M. read_region rd nm (x0, y0) level (Rect w h) nf d0 = Inr (T, M)
           \<and> gh (px_grid T) = nat h \<and> gw (px_grid T) = nat w
           \<and> gh M = nat h \<and> gw M = nat w"
proof -
  define u where "u = (if nf then normalize_pixels nm t else t)"
  define pt where "pt = y - y0"
  define pb where "pb = h - ch + min y0 0"
  define pl where "pl = x - x0"
  define pr where "pr = w - cw + min x0 0"
  note cp = clip_pads [OF assms(3)]
  have nn: "0 \<le> pt" "0 \<le> pb" "0 \<le> pl" "0 \<le> pr"
    using cp(1,2,4,5) by (simp_all add: pt_def pb_def pl_def pr_def)
  have sums: "pt + ch + pb = h" "pl + cw + pr = w"
    using cp(3,6) by (simp_all add: pt_def pb_def pl_def pr_def)
  have us: "gh (px_grid u) = nat ch" "gw (px_grid u) = nat cw"
    using assms(7,8) by (simp_all add: u_def normalize_pixels_shape)
  have c: "clip (x0, y0) (as_pair (Rect w h)) (width, height) = ((x, y), (cw, ch))"
    using assms(3) by (simp add: as_pair_def)
  have rr: "read_region rd nm (x0, y0) level (Rect w h) nf d0 =
              pad_back (x0, y0) (w, h) (x, y) (cw, ch) (u, m)"
    using read_region_plain [OF assms(1,2) c assms(4), of nm nf] by (simp add: as_pair_def u_def)
  have "\<exists>G. np_pad (px_grid u) ((pt, pb), (pl, pr)) (zero_cell u) = Inr G"
    unfolding np_pad_Inr [OF nn] by (rule exI) (rule refl)
  then obtain G where G: "np_pad (px_grid u) ((pt, pb), (pl, pr)) (zero_cell u) = Inr G" ..
  have "\<exists>M. np_pad m ((pt, pb), (pl, pr)) False = Inr M"
    unfolding np_pad_Inr [OF nn] by (rule exI) (rule refl)
  then obtain M where M: "np_pad m ((pt, pb), (pl, pr)) False = Inr M" ..
  have pb: "pad_back (x0, y0) (w, h) (x, y) (cw, ch) (u, m) = Inr (u\<lparr>px_grid := G\<rparr>, M)"
    using G M
    by (simp add: pad_back_def pad_pixels_def ebind_Inr Let_def pt_def pb_def pl_def pr_def)
  have hh: "nat pt + nat ch + nat pb = nat h"
    using nat_sum3 [OF nn(1) assms(6) nn(2) sums(1)] .
  have ww: "nat pl + nat cw + nat pr = nat w"
    using nat_sum3 [OF nn(3) assms(5) nn(4) sums(2)] .
  have Gs: "gh G = nat h" "gw G = nat w"
    using np_pad_shape [OF G] us hh ww by simp_all
  have Ms: "gh M = nat h" "gw M = nat w"
    using np_pad_shape [OF M] assms(9,10) hh ww by simp_all
  have "gh (px_grid (u\<lparr>px_grid := G\<rparr>)) = nat h" "gw (px_grid (u\<lparr>px_grid := G\<rparr>)) = nat w"
    using Gs by simp_all
  then show ?thesis using rr pb Ms by simp
qed

text \<open>
  A request that only touches the slide (clipped extent zero) is served as all padding by
  the tifffile backend; the failure above needs a negative extent.
\<close>

lemma touching_corner_is_padding:
  "read_region tiff2 nm (2, 2) 0 (Rect 2 2) False d0 =
     Inr (\<lparr>px_dtype = IntegerT, px_chan = Some 1,
            px_grid = \<lparr>gh = 2, gw = 2, cells = [[[0], [0]], [[0], [0]]]\<rparr>\<rparr>,
          \<lparr>gh = 2, gw = 2, cells = [[False, False], [False, False]]\<rparr>)"
proof -
  have d: "py_index (level_dimensions tiff2) 0 = Inr (2, 2)"
    by (simp add: tiff2_def TiffReader_def py_index_def)
  have c: "clip (2, 2) (as_pair (Rect 2 2)) (2, 2) = ((2, 2), (0, 0))"
    by (simp add: clip_def as_pair_def)
  have f: "fetch tiff2 (2, 2) (if d0 then 0 else 0) (0, 0) =
             Inr (tiny\<lparr>px_grid := \<lparr>gh = 0, gw = 0, cells = []\<rparr>\<rparr>, \<lparr>gh = 0, gw = 0, cells = []\<rparr>)"
    by (simp add: tiff2_def TiffReader_def TiffReader_read_region_def py_index_def np_ones_def
        slice2_def slice_indices_def py_slice_def tiny_def)
  show ?thesis
    using read_region_plain [OF _ d c f, of nm False]
    by (simp add: pad_back_def pad_pixels_def np_pad_def zero_cell_def tiny_def as_pair_def
        ebind_Inr Let_def numeral_2_eq_2)
qed

end
